theory Spec2Isabelle
  imports Main
begin

section \<open>Data model\<close>

text \<open>
  Modelled from the spec: the structures of \<^verbatim>\<open>defs.h\<close>, which is not among the sources. Each
  record has the members that the functions of \<^verbatim>\<open>system.c\<close>, \<^verbatim>\<open>resource.c\<close>,
  \<^verbatim>\<open>manager.c\<close> and the event queue read and write.

  The arithmetic of the model is that of the mathematical integers. It is the arithmetic of
  the code's 32-bit \<^verbatim>\<open>int\<close> as long as no result leaves the range of \<^verbatim>\<open>int\<close>, and only
  then: the code wraps around where the model does not. A theorem that rests on a sum or a
  difference is therefore stated where that result cannot leave the range: after the test
  \<^verbatim>\<open>amount >= required\<close> of a convert, on a Resource that holds between 0 and its capacity
  for a store, and behind the tests of \<^verbatim>\<open>system_run\<close> for sequences of operations, where
  every amount and buffer lies between 0 and a capacity or a rule amount of the
  configuration (lemma \<open>amounts_fit_int\<close>). Heap objects are addressed by natural numbers;
  a pointer that may be \<^verbatim>\<open>NULL\<close> is an \<open>option\<close>. Allocation is taken to succeed.

  Record fields share one name space, so members that occur in several structures carry a
  prefix: \<open>ra_\<close> for \<^verbatim>\<open>ResourceAmount\<close>, \<open>ev_\<close> for \<^verbatim>\<open>Event\<close>, \<open>sys_\<close> for \<^verbatim>\<open>System\<close> and
  \<open>q_\<close> for the queue's \<^verbatim>\<open>size\<close>.
\<close>

type_synonym res_ptr = nat
type_synonym sys_ptr = nat

text \<open>
  Modelled from the spec: the status codes of \<^verbatim>\<open>defs.h\<close> (an "enumerated condition"). The
  constructors are the macro names the code uses.
\<close>

datatype status_code =
  STATUS_OK | STATUS_EMPTY | STATUS_LOW | STATUS_INSUFFICIENT | STATUS_CAPACITY

text \<open>
  Modelled from the spec: the run modes of \<^verbatim>\<open>defs.h\<close>
  ("enumerated {STANDARD, SLOW, FAST, DISABLED, TERMINATE}").
\<close>

datatype run_mode = STANDARD | SLOW | FAST | DISABLED | TERMINATE

text \<open>
  The remaining macros of \<^verbatim>\<open>defs.h\<close> are integers whose values the sources do not show.
  They are parameters of the model.
\<close>

record defs =
  SYSTEM_WAIT_TIME :: int
  PRIORITY_HIGH :: int
  PRIORITY_LOW :: int

record Resource =
  name :: string
  amount :: int
  max_capacity :: int

record ResourceAmount =
  ra_resource :: "res_ptr option"
  ra_amount :: int

record Event =
  ev_system :: sys_ptr
  ev_resource :: "res_ptr option"
  ev_status :: status_code
  priority :: int
  ev_amount :: int

text \<open>
  The queue is a singly linked chain of nodes starting at \<^verbatim>\<open>head\<close>; the chain is the list
  of the events its nodes hold, front first, and \<^verbatim>\<open>NULL\<close> is the empty list.
\<close>

record EventQueue =
  head :: "Event list"
  q_size :: int

section \<open>Events and the event queue\<close>

definition event_init ::
  "sys_ptr \<Rightarrow> res_ptr option \<Rightarrow> status_code \<Rightarrow> int \<Rightarrow> int \<Rightarrow> Event" where
  "event_init sys res st prio amt =
     \<lparr>ev_system = sys, ev_resource = res, ev_status = st, priority = prio, ev_amount = amt\<rparr>"

definition event_queue_init :: EventQueue where
  "event_queue_init = \<lparr>head = [], q_size = 0\<rparr>"

text \<open>
  The traversal of \<^verbatim>\<open>event_queue_push\<close>: walk while the current node's priority is at least
  the new event's, then link the new node in front of the current one.
\<close>

fun traverse :: "Event \<Rightarrow> Event list \<Rightarrow> Event list" where
  "traverse e [] = [e]"
| "traverse e (c # cs) =
     (if priority c \<ge> priority e then c # traverse e cs else e # c # cs)"

definition event_queue_push :: "EventQueue \<Rightarrow> Event \<Rightarrow> EventQueue" where
  "event_queue_push q e =
     (case head q of
        [] \<Rightarrow> q\<lparr>head := [e], q_size := q_size q + 1\<rparr>
      | h # hs \<Rightarrow>
          if priority e > priority h
          then q\<lparr>head := e # h # hs, q_size := q_size q + 1\<rparr>
          else q\<lparr>head := traverse e (h # hs), q_size := q_size q + 1\<rparr>)"

definition event_queue_pop :: "EventQueue \<Rightarrow> Event option \<times> EventQueue" where
  "event_queue_pop q =
     (case head q of
        [] \<Rightarrow> (None, q)
      | h # hs \<Rightarrow> (Some h, q\<lparr>head := hs, q_size := q_size q - 1\<rparr>))"

text \<open>Pushing a sequence of events, first to last.\<close>

definition push_all :: "EventQueue \<Rightarrow> Event list \<Rightarrow> EventQueue" where
  "push_all q es = foldl event_queue_push q es"

text \<open>Popping until \<^verbatim>\<open>event_queue_pop\<close> reports an empty queue; the events in the order returned.\<close>

function pop_all :: "EventQueue \<Rightarrow> Event list" where
  "pop_all q =
     (case event_queue_pop q of
        (None, _) \<Rightarrow> []
      | (Some e, q') \<Rightarrow> e # pop_all q')"
  by pat_completeness auto
termination
  by (relation "measure (\<lambda>q. length (head q))")
     (auto simp: event_queue_pop_def split: list.splits)

declare pop_all.simps [simp del]

section \<open>Systems\<close>

text \<open>
  A \<^verbatim>\<open>System\<close> also holds a pointer to the event queue it reports to; every System is
  created with the address of the Manager's queue, which is the \<open>event_queue\<close> of the state
  below.
\<close>

record System =
  sys_name :: string
  consumed :: ResourceAmount
  produced :: ResourceAmount
  amount_stored :: int
  processing_time :: int
  sys_status :: run_mode

text \<open>
  The state the functions work on: the Resource and System objects by address, the event
  queue, and the arguments of the \<^verbatim>\<open>usleep\<close> calls made so far, oldest first. An argument is
  recorded as the value of its expression over the integers, which is the duration the code
  passes while the product fits an \<^verbatim>\<open>int\<close>; no theorem below depends on a duration.
\<close>

record state =
  resources :: "res_ptr \<Rightarrow> Resource"
  systems :: "sys_ptr \<Rightarrow> System"
  event_queue :: EventQueue
  slept :: "int list"

definition usleep :: "int \<Rightarrow> state \<Rightarrow> state" where
  "usleep t s = s\<lparr>slept := slept s @ [t]\<rparr>"

text \<open>C's integer division truncates towards zero.\<close>

definition c_div :: "int \<Rightarrow> int \<Rightarrow> int" where
  "c_div a b = sgn a * sgn b * (\<bar>a\<bar> div \<bar>b\<bar>)"

definition system_simulate_process_time :: "sys_ptr \<Rightarrow> state \<Rightarrow> state" where
  "system_simulate_process_time p s =
     (let sys = systems s p;
          adjusted_processing_time =
            (case sys_status sys of
               SLOW \<Rightarrow> processing_time sys * 2
             | FAST \<Rightarrow> c_div (processing_time sys) 2
             | _ \<Rightarrow> processing_time sys)
      in usleep (adjusted_processing_time * 1000) s)"

text \<open>
  Assignments through the pointers: \<^verbatim>\<open>resource->amount = v\<close>,
  \<^verbatim>\<open>system->amount_stored = v\<close> and \<^verbatim>\<open>system->status = mode\<close>.
\<close>

definition set_amount :: "res_ptr \<Rightarrow> int \<Rightarrow> state \<Rightarrow> state" where
  "set_amount r v s = s\<lparr>resources := (resources s)(r := (resources s r)\<lparr>amount := v\<rparr>)\<rparr>"

definition set_amount_stored :: "sys_ptr \<Rightarrow> int \<Rightarrow> state \<Rightarrow> state" where
  "set_amount_stored p v s = s\<lparr>systems := (systems s)(p := (systems s p)\<lparr>amount_stored := v\<rparr>)\<rparr>"

definition set_status :: "sys_ptr \<Rightarrow> run_mode \<Rightarrow> state \<Rightarrow> state" where
  "set_status p mode s = s\<lparr>systems := (systems s)(p := (systems s p)\<lparr>sys_status := mode\<rparr>)\<rparr>"

definition system_convert :: "sys_ptr \<Rightarrow> state \<Rightarrow> status_code \<times> state" where
  "system_convert p s =
     (let consumed_resource = ra_resource (consumed (systems s p));
          amount_consumed = ra_amount (consumed (systems s p));
          (status, s1) =
            (case consumed_resource of
               None \<Rightarrow> (STATUS_OK, s)
             | Some r \<Rightarrow>
                 if amount (resources s r) \<ge> amount_consumed
                 then (STATUS_OK, set_amount r (amount (resources s r) - amount_consumed) s)
                 else (if amount (resources s r) = 0 then STATUS_EMPTY else STATUS_INSUFFICIENT, s))
      in if status = STATUS_OK
         then
           (let s2 = system_simulate_process_time p s1
            in if ra_resource (produced (systems s2 p)) \<noteq> None
               then (status,
                     set_amount_stored p
                       (amount_stored (systems s2 p) + ra_amount (produced (systems s2 p))) s2)
               else (status, set_amount_stored p 0 s2))
         else (status, s1))"

definition system_store_resources :: "sys_ptr \<Rightarrow> state \<Rightarrow> status_code \<times> state" where
  "system_store_resources p s =
     (case ra_resource (produced (systems s p)) of
        None \<Rightarrow> (STATUS_OK, set_amount_stored p 0 s)
      | Some r \<Rightarrow>
          if amount_stored (systems s p) = 0 then (STATUS_OK, set_amount_stored p 0 s)
          else
            (let amount_to_store = amount_stored (systems s p);
                 available_space = max_capacity (resources s r) - amount (resources s r);
                 s1 =
                   (if available_space \<ge> amount_to_store
                    then set_amount_stored p 0
                           (set_amount r (amount (resources s r) + amount_to_store) s)
                    else if available_space > 0
                    then set_amount_stored p (amount_to_store - available_space)
                           (set_amount r (amount (resources s r) + available_space) s)
                    else s)
             in if amount_stored (systems s1 p) \<noteq> 0 then (STATUS_CAPACITY, s1)
                else (STATUS_OK, s1)))"

definition push_event :: "Event \<Rightarrow> state \<Rightarrow> state" where
  "push_event e s = s\<lparr>event_queue := event_queue_push (event_queue s) e\<rparr>"

text \<open>The two halves of \<^verbatim>\<open>system_run\<close>: the convert block and the store block.\<close>

definition convert_block :: "defs \<Rightarrow> sys_ptr \<Rightarrow> state \<Rightarrow> state" where
  "convert_block d p s =
     (if amount_stored (systems s p) = 0
      then
        (let (result_status, s1) = system_convert p s
         in if result_status \<noteq> STATUS_OK
            then usleep (SYSTEM_WAIT_TIME d * 1000)
                   (push_event
                      (event_init p (ra_resource (consumed (systems s1 p))) result_status
                         (PRIORITY_HIGH d) (ra_amount (consumed (systems s1 p))))
                      s1)
            else s1)
      else s)"

definition store_block :: "defs \<Rightarrow> sys_ptr \<Rightarrow> state \<Rightarrow> state" where
  "store_block d p s =
     (if amount_stored (systems s p) > 0
      then
        (let (result_status, s1) = system_store_resources p s
         in if result_status \<noteq> STATUS_OK
            then usleep (SYSTEM_WAIT_TIME d * 1000)
                   (push_event
                      (event_init p (ra_resource (produced (systems s1 p))) result_status
                         (PRIORITY_LOW d) (ra_amount (produced (systems s1 p))))
                      s1)
            else s1)
      else s)"

definition system_run :: "defs \<Rightarrow> sys_ptr \<Rightarrow> state \<Rightarrow> state" where
  "system_run d p s = store_block d p (convert_block d p s)"

section \<open>The Manager\<close>

text \<open>
  The Manager's event queue is the \<open>event_queue\<close> of the state; its arrays are the lists of
  the pointers they hold.
\<close>

record Manager =
  simulation_running :: int
  system_array :: "sys_ptr list"
  resource_array :: "res_ptr list"

datatype error = NullPointer

text \<open>
  The loop over \<^verbatim>\<open>manager->system_array\<close> in \<^verbatim>\<open>manager_run\<close>: a System takes the new mode
  when the mode is TERMINATE or when it produces the event's resource.
\<close>

fun update_systems ::
  "run_mode \<Rightarrow> res_ptr option \<Rightarrow> sys_ptr list \<Rightarrow> (sys_ptr \<Rightarrow> System) \<Rightarrow> (sys_ptr \<Rightarrow> System)" where
  "update_systems status res [] h = h"
| "update_systems status res (sys # rest) h =
     update_systems status res rest
       (if status = TERMINATE \<or> ra_resource (produced (h sys)) = res
        then h(sys := (h sys)\<lparr>sys_status := status\<rparr>)
        else h)"

text \<open>
  The body of the \<^verbatim>\<open>while\<close> loop of \<^verbatim>\<open>manager_run\<close>, for one popped event. The event's
  resource is dereferenced for its name, so a \<^verbatim>\<open>NULL\<close> resource is an error. The local
  \<^verbatim>\<open>status\<close> is assigned in three of the four branches only; \<open>None\<close> is the unassigned
  variable. Printing is not part of the state.
\<close>

definition process_event :: "Manager \<Rightarrow> state \<Rightarrow> Event \<Rightarrow> error + Manager \<times> state" where
  "process_event m s event =
     (case ev_resource event of
        None \<Rightarrow> Inl NullPointer
      | Some r \<Rightarrow>
         (let no_oxygen_flag =
                (ev_status event = STATUS_EMPTY \<and> name (resources s r) = ''Oxygen'');
              distance_reached_flag =
                (ev_status event = STATUS_CAPACITY \<and> name (resources s r) = ''Distance'');
              need_more_flag =
                (ev_status event = STATUS_LOW \<or> ev_status event = STATUS_EMPTY
                 \<or> ev_status event = STATUS_INSUFFICIENT);
              need_less_flag = (ev_status event = STATUS_CAPACITY);
              (status, m1) =
                (if no_oxygen_flag \<or> distance_reached_flag
                 then (Some TERMINATE, m\<lparr>simulation_running := 0\<rparr>)
                 else if need_more_flag then (Some FAST, m)
                 else if need_less_flag then (Some SLOW, m)
                 else (None, m))
          in if no_oxygen_flag \<or> distance_reached_flag \<or> need_more_flag \<or> need_less_flag
             then (case status of
                     Some st \<Rightarrow>
                       Inr (m1, s\<lparr>systems :=
                                   update_systems st (ev_resource event) (system_array m1) (systems s)\<rparr>)
                   | None \<Rightarrow> Inr (m1, s))
             else Inr (m1, s)))"

text \<open>
  \<^verbatim>\<open>manager_run\<close>: pop and handle events until the queue is empty. The display refresh at its
  start only prints.
\<close>

function manager_run :: "Manager \<Rightarrow> state \<Rightarrow> error + Manager \<times> state" where
  "manager_run m s =
     (case event_queue_pop (event_queue s) of
        (None, q') \<Rightarrow> Inr (m, s)
      | (Some event, q') \<Rightarrow>
          (case process_event m (s\<lparr>event_queue := q'\<rparr>) event of
             Inl err \<Rightarrow> Inl err
           | Inr (m', s') \<Rightarrow> manager_run m' s'))"
  by pat_completeness auto
termination
  by (relation "measure (\<lambda>(m, s). length (head (event_queue s)))")
     (auto simp: event_queue_pop_def process_event_def Let_def
           split: list.splits option.splits if_splits)

declare manager_run.simps [simp del]

section \<open>Sequences of operations\<close>

text \<open>
  \<^verbatim>\<open>system_convert\<close> and \<^verbatim>\<open>system_store_resources\<close> are static: the program reaches them
  through \<^verbatim>\<open>system_run\<close> only, the convert when the buffer is empty and the store when it
  holds something. A step of a sequence of operations is such a convert or store of some
  System, or a whole cycle of it.
\<close>

datatype sys_op = Convert sys_ptr | Store sys_ptr | Cycle sys_ptr

fun apply_op :: "defs \<Rightarrow> sys_op \<Rightarrow> state \<Rightarrow> state" where
  "apply_op d (Convert p) s = convert_block d p s"
| "apply_op d (Store p) s = store_block d p s"
| "apply_op d (Cycle p) s = system_run d p s"

definition apply_ops :: "defs \<Rightarrow> sys_op list \<Rightarrow> state \<Rightarrow> state" where
  "apply_ops d ops s = fold (apply_op d) ops s"

section \<open>Invariants\<close>

text \<open>
  Every Resource holds between 0 and its capacity; the amounts of the consumption and
  production rules are not negative; every buffer lies between 0 and the amount of its
  production rule.
\<close>

definition capacity_inv :: "state \<Rightarrow> bool" where
  "capacity_inv s \<longleftrightarrow>
     (\<forall>r. 0 \<le> amount (resources s r) \<and> amount (resources s r) \<le> max_capacity (resources s r))"

definition rules_nonneg :: "state \<Rightarrow> bool" where
  "rules_nonneg s \<longleftrightarrow>
     (\<forall>p. 0 \<le> ra_amount (consumed (systems s p)) \<and> 0 \<le> ra_amount (produced (systems s p)))"

definition buffers_bounded :: "state \<Rightarrow> bool" where
  "buffers_bounded s \<longleftrightarrow>
     (\<forall>p. 0 \<le> amount_stored (systems s p) \<and>
          amount_stored (systems s p) \<le> ra_amount (produced (systems s p)))"

section \<open>A sample configuration\<close>

text \<open>
  The figures of \<^verbatim>\<open>load_data\<close>: Fuel, Oxygen, Energy and Distance at addresses 0 to 3, and the
  Systems Propulsion, Life Support, Crew and Generator at addresses 0 to 3, with empty
  buffers, here all in mode STANDARD. The macros take small example values.
\<close>

definition example_defs :: defs where
  "example_defs = \<lparr>SYSTEM_WAIT_TIME = 10, PRIORITY_HIGH = 3, PRIORITY_LOW = 1\<rparr>"

definition example_resources :: "res_ptr \<Rightarrow> Resource" where
  "example_resources =
     (\<lambda>_. \<lparr>name = [], amount = 0, max_capacity = 0\<rparr>)
       (0 := \<lparr>name = ''Fuel'', amount = 1000, max_capacity = 1000\<rparr>,
        1 := \<lparr>name = ''Oxygen'', amount = 20, max_capacity = 50\<rparr>,
        2 := \<lparr>name = ''Energy'', amount = 30, max_capacity = 50\<rparr>,
        3 := \<lparr>name = ''Distance'', amount = 0, max_capacity = 5000\<rparr>)"

definition new_system ::
  "string \<Rightarrow> res_ptr option \<Rightarrow> int \<Rightarrow> res_ptr option \<Rightarrow> int \<Rightarrow> int \<Rightarrow> System" where
  "new_system n cr ca pr pa t =
     \<lparr>sys_name = n,
      consumed = \<lparr>ra_resource = cr, ra_amount = ca\<rparr>,
      produced = \<lparr>ra_resource = pr, ra_amount = pa\<rparr>,
      amount_stored = 0, processing_time = t, sys_status = STANDARD\<rparr>"

definition example_systems :: "sys_ptr \<Rightarrow> System" where
  "example_systems =
     (\<lambda>_. new_system [] None 0 None 0 0)
       (0 := new_system ''Propulsion'' (Some 0) 5 (Some 3) 25 50,
        1 := new_system ''Life Support'' (Some 2) 7 (Some 1) 4 10,
        2 := new_system ''Crew'' (Some 1) 1 None 0 2,
        3 := new_system ''Generator'' (Some 0) 5 (Some 2) 10 20)"

definition example_state :: state where
  "example_state =
     \<lparr>resources = example_resources, systems = example_systems,
      event_queue = event_queue_init, slept = []\<rparr>"

definition example_manager :: Manager where
  "example_manager =
     \<lparr>simulation_running = 1, system_array = [0, 1, 2, 3], resource_array = [0, 1, 2, 3]\<rparr>"

text \<open>
  Propulsion after one cycle that started with Distance at 4990 of 5000: 10 of the 25 produced
  units were stored and 15 are still buffered.
\<close>

definition retry_state :: state where
  "retry_state = system_run example_defs 0 (set_amount 3 4990 example_state)"

text \<open>Propulsion holding its 25 produced units in the buffer, with Distance at amount \<open>a\<close>.\<close>

definition buffered_state :: "int \<Rightarrow> state" where
  "buffered_state a = set_amount_stored 0 25 (set_amount 3 a example_state)"

text \<open>
  States with one event in the queue: Crew has found no Oxygen; Life Support has found 5
  Energy where it needs 7; the Generator has met Energy at 45 of 50 with 10 to store; and an
  event with status OK has been pushed.
\<close>

definition crew_report_state :: state where
  "crew_report_state = system_run example_defs 2 (set_amount 1 0 example_state)"

definition life_support_report_state :: state where
  "life_support_report_state = system_run example_defs 1 (set_amount 2 5 example_state)"

definition generator_report_state :: state where
  "generator_report_state = system_run example_defs 3 (set_amount 2 45 example_state)"

definition ok_report_state :: state where
  "ok_report_state = push_event (event_init 0 (Some 0) STATUS_OK 1 0) example_state"

text \<open>The sample configuration with the Generator switched to DISABLED.\<close>

definition disabled_state :: state where
  "disabled_state = set_status 3 DISABLED example_state"

section \<open>The order of the event queue\<close>

lemma head_event_queue_push: "head (event_queue_push q e) = traverse e (head q)"
  by (simp add: event_queue_push_def split: list.splits)

lemma q_size_event_queue_push: "q_size (event_queue_push q e) = q_size q + 1"
  by (simp add: event_queue_push_def split: list.splits)

text \<open>Popping to the end returns the chain of nodes, front first.\<close>

lemma pop_all_head: "pop_all q = head q"
proof (induction "head q" arbitrary: q)
  case Nil
  then show ?case by (simp add: pop_all.simps [of q] event_queue_pop_def)
next
  case (Cons h hs)
  from Cons.hyps(2) have hq: "head q = h # hs" by simp
  have "head (q\<lparr>head := hs, q_size := q_size q - 1\<rparr>) = hs" by simp
  with Cons.hyps(1) have "pop_all (q\<lparr>head := hs, q_size := q_size q - 1\<rparr>) = hs" by metis
  with hq show ?case by (simp add: pop_all.simps [of q] event_queue_pop_def)
qed

lemma set_traverse: "set (traverse e xs) = insert e (set xs)"
  by (induction xs) auto

lemma length_traverse: "length (traverse e xs) = Suc (length xs)"
  by (induction xs) auto

lemma sorted_traverse:
  "sorted_wrt (\<lambda>a b. priority b \<le> priority a) xs \<Longrightarrow>
   sorted_wrt (\<lambda>a b. priority b \<le> priority a) (traverse e xs)"
  by (induction xs) (auto simp: set_traverse)

text \<open>
  In a chain in descending order, the new event ends up behind every event of its own
  priority, and the events of any other priority are not disturbed.
\<close>

lemma filter_traverse:
  "sorted_wrt (\<lambda>a b. priority b \<le> priority a) xs \<Longrightarrow>
   filter (\<lambda>x. priority x = k) (traverse e xs) = filter (\<lambda>x. priority x = k) (xs @ [e])"
proof (induction xs)
  case Nil
  then show ?case by simp
next
  case (Cons c cs)
  show ?case
  proof (cases "priority c \<ge> priority e")
    case True
    with Cons show ?thesis by simp
  next
    case False
    with Cons.prems have "\<forall>x\<in>set (c # cs). priority x \<noteq> priority e" by auto
    then have "filter (\<lambda>x. priority x = priority e) (c # cs) = []"
      by (simp add: filter_empty_conv)
    with False show ?thesis by (cases "k = priority e") auto
  qed
qed

lemma push_all_sorted_stable:
  "sorted_wrt (\<lambda>a b. priority b \<le> priority a) (head q) \<Longrightarrow>
   sorted_wrt (\<lambda>a b. priority b \<le> priority a) (head (push_all q es)) \<and>
   filter (\<lambda>x. priority x = k) (head (push_all q es)) =
     filter (\<lambda>x. priority x = k) (head q @ es) \<and>
   length (head (push_all q es)) = length (head q) + length es"
proof (induction es arbitrary: q)
  case Nil
  then show ?case by (simp add: push_all_def)
next
  case (Cons e es)
  have s: "sorted_wrt (\<lambda>a b. priority b \<le> priority a) (head (event_queue_push q e))"
    using Cons.prems by (simp add: head_event_queue_push sorted_traverse)
  from Cons.IH [OF s] Cons.prems show ?case
    by (simp add: push_all_def head_event_queue_push filter_traverse length_traverse)
qed

text \<open>
  Claim C2. Push any sequence of events onto an empty queue and pop until the queue is
  empty: the events come back in descending order of priority, the events of each priority
  come back in the order they were pushed, and every pushed event comes back.
\<close>

theorem queue_pops_by_priority_then_age:
  "sorted_wrt (\<lambda>a b. priority b \<le> priority a) (pop_all (push_all event_queue_init es)) \<and>
   (\<forall>k. filter (\<lambda>x. priority x = k) (pop_all (push_all event_queue_init es)) =
        filter (\<lambda>x. priority x = k) es) \<and>
   length (pop_all (push_all event_queue_init es)) = length es"
proof -
  have e: "head event_queue_init = []"
    by (simp add: event_queue_init_def)
  then have s: "sorted_wrt (\<lambda>a b. priority b \<le> priority a) (head event_queue_init)"
    by simp
  have "sorted_wrt (\<lambda>a b. priority b \<le> priority a) (head (push_all event_queue_init es))"
    using push_all_sorted_stable [OF s] by blast
  moreover have "filter (\<lambda>x. priority x = k) (head (push_all event_queue_init es)) =
      filter (\<lambda>x. priority x = k) es" for k
    using push_all_sorted_stable [OF s, where es = es and k = k] by (simp add: e)
  moreover have "length (head (push_all event_queue_init es)) = length es"
    using push_all_sorted_stable [OF s, where es = es] by (simp add: e)
  ultimately show ?thesis
    by (simp add: pop_all_head)
qed

text \<open>
  Two events of priority 1 around one of priority 3: the priority 3 event is popped first,
  then the two others, the older one first.
\<close>

theorem queue_pops_by_priority_then_age_witness:
  "pop_all (push_all event_queue_init
     [event_init 2 (Some 1) STATUS_EMPTY 1 1,
      event_init 1 (Some 2) STATUS_INSUFFICIENT 3 7,
      event_init 0 (Some 3) STATUS_CAPACITY 1 25]) =
     [event_init 1 (Some 2) STATUS_INSUFFICIENT 3 7,
      event_init 2 (Some 1) STATUS_EMPTY 1 1,
      event_init 0 (Some 3) STATUS_CAPACITY 1 25] \<and>
   sorted_wrt (\<lambda>a b. priority b \<le> priority a)
     (pop_all (push_all event_queue_init
        [event_init 2 (Some 1) STATUS_EMPTY 1 1,
         event_init 1 (Some 2) STATUS_INSUFFICIENT 3 7,
         event_init 0 (Some 3) STATUS_CAPACITY 1 25]))"
  using queue_pops_by_priority_then_age
    [of "[event_init 2 (Some 1) STATUS_EMPTY 1 1,
          event_init 1 (Some 2) STATUS_INSUFFICIENT 3 7,
          event_init 0 (Some 3) STATUS_CAPACITY 1 25]"]
  by (simp add: pop_all_head push_all_def event_queue_push_def event_queue_init_def
      event_init_def)

section \<open>Convert and store\<close>

lemma set_amount_simps:
  "resources (set_amount r v s) = (resources s)(r := (resources s r)\<lparr>amount := v\<rparr>)"
  "systems (set_amount r v s) = systems s"
  "event_queue (set_amount r v s) = event_queue s"
  "slept (set_amount r v s) = slept s"
  by (simp_all add: set_amount_def)

lemma set_amount_stored_simps:
  "resources (set_amount_stored p v s) = resources s"
  "systems (set_amount_stored p v s) = (systems s)(p := (systems s p)\<lparr>amount_stored := v\<rparr>)"
  "event_queue (set_amount_stored p v s) = event_queue s"
  "slept (set_amount_stored p v s) = slept s"
  by (simp_all add: set_amount_stored_def)

lemma usleep_simps:
  "resources (usleep t s) = resources s"
  "systems (usleep t s) = systems s"
  "event_queue (usleep t s) = event_queue s"
  "slept (usleep t s) = slept s @ [t]"
  by (simp_all add: usleep_def)

lemma push_event_simps:
  "resources (push_event e s) = resources s"
  "systems (push_event e s) = systems s"
  "event_queue (push_event e s) = event_queue_push (event_queue s) e"
  "slept (push_event e s) = slept s"
  by (simp_all add: push_event_def)

lemma process_time_simps:
  "resources (system_simulate_process_time p s) = resources s"
  "systems (system_simulate_process_time p s) = systems s"
  "event_queue (system_simulate_process_time p s) = event_queue s"
  by (simp_all add: system_simulate_process_time_def Let_def usleep_simps)

lemmas state_simps =
  set_amount_simps set_amount_stored_simps usleep_simps push_event_simps process_time_simps

text \<open>The equations that evaluate a cycle, and those of the sample configuration.\<close>

lemmas run_defs =
  system_run_def convert_block_def store_block_def system_convert_def
  system_store_resources_def system_simulate_process_time_def Let_def

lemmas example_simps =
  example_state_def example_resources_def example_systems_def new_system_def
  example_defs_def example_manager_def event_queue_init_def event_init_def

text \<open>
  Claim C3. A convert of a System whose consumed resource is present and whose required
  amount is positive: with amount 0 the status is EMPTY, with an amount from 1 to
  required - 1 it is INSUFFICIENT, and with at least the required amount it is OK and the
  resource's amount has gone down by exactly the required amount.
\<close>

theorem convert_outcomes:
  assumes "ra_resource (consumed (systems s p)) = Some r"
    and "0 < ra_amount (consumed (systems s p))"
  shows "(amount (resources s r) = 0 \<longrightarrow> fst (system_convert p s) = STATUS_EMPTY) \<and>
         (1 \<le> amount (resources s r) \<and>
          amount (resources s r) \<le> ra_amount (consumed (systems s p)) - 1
            \<longrightarrow> fst (system_convert p s) = STATUS_INSUFFICIENT) \<and>
         (ra_amount (consumed (systems s p)) \<le> amount (resources s r)
            \<longrightarrow> fst (system_convert p s) = STATUS_OK \<and>
                amount (resources (snd (system_convert p s)) r) =
                  amount (resources s r) - ra_amount (consumed (systems s p)))"
  using assms by (simp add: system_convert_def Let_def state_simps)

text \<open>
  Crew needs 1 Oxygen and finds none; Life Support needs 7 Energy and finds 5; Propulsion
  needs 5 Fuel and finds 1000.
\<close>

theorem convert_outcomes_witness:
  "fst (system_convert 2 (set_amount 1 0 example_state)) = STATUS_EMPTY \<and>
   fst (system_convert 1 (set_amount 2 5 example_state)) = STATUS_INSUFFICIENT \<and>
   fst (system_convert 0 example_state) = STATUS_OK \<and>
   amount (resources (snd (system_convert 0 example_state)) 0) = 995"
proof -
  have crew: "ra_resource (consumed (systems (set_amount 1 0 example_state) 2)) = Some 1"
    "0 < ra_amount (consumed (systems (set_amount 1 0 example_state) 2))"
    "amount (resources (set_amount 1 0 example_state) 1) = 0"
    by (simp_all add: state_simps example_simps)
  have life: "ra_resource (consumed (systems (set_amount 2 5 example_state) 1)) = Some 2"
    "0 < ra_amount (consumed (systems (set_amount 2 5 example_state) 1))"
    "1 \<le> amount (resources (set_amount 2 5 example_state) 2) \<and>
     amount (resources (set_amount 2 5 example_state) 2)
       \<le> ra_amount (consumed (systems (set_amount 2 5 example_state) 1)) - 1"
    by (simp_all add: state_simps example_simps)
  have drive: "ra_resource (consumed (systems example_state 0)) = Some 0"
    "0 < ra_amount (consumed (systems example_state 0))"
    "ra_amount (consumed (systems example_state 0)) \<le> amount (resources example_state 0)"
    "amount (resources example_state 0) - ra_amount (consumed (systems example_state 0)) = 995"
    by (simp_all add: example_simps)
  from convert_outcomes [OF crew(1,2)] crew(3)
  have "fst (system_convert 2 (set_amount 1 0 example_state)) = STATUS_EMPTY" by blast
  moreover from convert_outcomes [OF life(1,2)] life(3)
  have "fst (system_convert 1 (set_amount 2 5 example_state)) = STATUS_INSUFFICIENT" by blast
  moreover from convert_outcomes [OF drive(1,2)] drive(3,4)
  have "fst (system_convert 0 example_state) = STATUS_OK \<and>
        amount (resources (snd (system_convert 0 example_state)) 0) = 995" by simp
  ultimately show ?thesis by simp
qed

text \<open>
  Claim C4. A store of a System whose produced resource is present and whose buffer is
  positive, into a Resource that holds between 0 and its capacity, with
  headroom = max_capacity - amount: if the headroom is at least the buffer, the buffer becomes
  0 and the amount grows by exactly the buffer; if the headroom is positive but smaller than
  the buffer, the amount becomes max_capacity, the buffer keeps the buffer minus the headroom,
  and the status is CAPACITY; if the headroom is 0, nothing changes and the status is
  CAPACITY. On such a Resource the headroom and the new amount lie between 0 and the
  capacity, so the code's \<^verbatim>\<open>int\<close> computes them as the integers do.
\<close>

theorem store_outcomes:
  assumes "ra_resource (produced (systems s p)) = Some r"
    and "0 < amount_stored (systems s p)"
    and "0 \<le> amount (resources s r)"
    and "amount (resources s r) \<le> max_capacity (resources s r)"
  shows "(amount_stored (systems s p) \<le> max_capacity (resources s r) - amount (resources s r)
            \<longrightarrow> amount_stored (systems (snd (system_store_resources p s)) p) = 0 \<and>
                amount (resources (snd (system_store_resources p s)) r) =
                  amount (resources s r) + amount_stored (systems s p) \<and>
                fst (system_store_resources p s) = STATUS_OK) \<and>
         (0 < max_capacity (resources s r) - amount (resources s r) \<and>
          max_capacity (resources s r) - amount (resources s r) < amount_stored (systems s p)
            \<longrightarrow> amount (resources (snd (system_store_resources p s)) r) =
                  max_capacity (resources s r) \<and>
                amount_stored (systems (snd (system_store_resources p s)) p) =
                  amount_stored (systems s p) -
                    (max_capacity (resources s r) - amount (resources s r)) \<and>
                fst (system_store_resources p s) = STATUS_CAPACITY) \<and>
         (max_capacity (resources s r) - amount (resources s r) = 0
            \<longrightarrow> snd (system_store_resources p s) = s \<and>
                fst (system_store_resources p s) = STATUS_CAPACITY)"
  using assms(1,2) by (simp add: system_store_resources_def Let_def state_simps)

text \<open>
  The values a store computes on such a Resource: the headroom, the amount stored and the
  remainder all lie between 0 and the capacity or the buffer.
\<close>

lemma store_values_in_range:
  assumes "0 \<le> amount (resources s r)"
    and "amount (resources s r) \<le> max_capacity (resources s r)"
    and "0 < amount_stored (systems s p)"
  shows "0 \<le> max_capacity (resources s r) - amount (resources s r) \<and>
         max_capacity (resources s r) - amount (resources s r) \<le> max_capacity (resources s r) \<and>
         (amount_stored (systems s p) \<le> max_capacity (resources s r) - amount (resources s r)
            \<longrightarrow> amount (resources s r) + amount_stored (systems s p)
                  \<le> max_capacity (resources s r)) \<and>
         (max_capacity (resources s r) - amount (resources s r) < amount_stored (systems s p)
            \<longrightarrow> 0 < amount_stored (systems s p) -
                      (max_capacity (resources s r) - amount (resources s r)) \<and>
                amount_stored (systems s p) -
                      (max_capacity (resources s r) - amount (resources s r))
                  \<le> amount_stored (systems s p))"
  using assms by simp

text \<open>
  Propulsion stores 25 units into Distance, which holds 0, 4990 and 5000 of 5000.
\<close>

theorem store_outcomes_witness:
  "amount_stored (systems (snd (system_store_resources 0 (buffered_state 0))) 0) = 0 \<and>
   amount (resources (snd (system_store_resources 0 (buffered_state 0))) 3) = 25 \<and>
   fst (system_store_resources 0 (buffered_state 0)) = STATUS_OK \<and>
   amount (resources (snd (system_store_resources 0 (buffered_state 4990))) 3) = 5000 \<and>
   amount_stored (systems (snd (system_store_resources 0 (buffered_state 4990))) 0) = 15 \<and>
   fst (system_store_resources 0 (buffered_state 4990)) = STATUS_CAPACITY \<and>
   snd (system_store_resources 0 (buffered_state 5000)) = buffered_state 5000 \<and>
   fst (system_store_resources 0 (buffered_state 5000)) = STATUS_CAPACITY"
proof -
  have pre: "ra_resource (produced (systems (buffered_state a) 0)) = Some 3"
    "0 < amount_stored (systems (buffered_state a) 0)" for a
    by (simp_all add: buffered_state_def state_simps example_simps)
  have val: "amount_stored (systems (buffered_state a) 0) = 25"
    "amount (resources (buffered_state a) 3) = a"
    "max_capacity (resources (buffered_state a) 3) = 5000" for a
    by (simp_all add: buffered_state_def state_simps example_simps)
  have inv: "0 \<le> amount (resources (buffered_state a) 3)"
    "amount (resources (buffered_state a) 3) \<le> max_capacity (resources (buffered_state a) 3)"
    if "0 \<le> a" "a \<le> 5000" for a
    using that by (simp_all add: val)
  from store_outcomes [OF pre inv, of 0]
  have "amount_stored (systems (snd (system_store_resources 0 (buffered_state 0))) 0) = 0 \<and>
        amount (resources (snd (system_store_resources 0 (buffered_state 0))) 3) = 25 \<and>
        fst (system_store_resources 0 (buffered_state 0)) = STATUS_OK"
    by (simp add: val)
  moreover from store_outcomes [OF pre inv, of 4990]
  have "amount (resources (snd (system_store_resources 0 (buffered_state 4990))) 3) = 5000 \<and>
        amount_stored (systems (snd (system_store_resources 0 (buffered_state 4990))) 0) = 15 \<and>
        fst (system_store_resources 0 (buffered_state 4990)) = STATUS_CAPACITY"
    by (simp add: val)
  moreover from store_outcomes [OF pre inv, of 5000]
  have "snd (system_store_resources 0 (buffered_state 5000)) = buffered_state 5000 \<and>
        fst (system_store_resources 0 (buffered_state 5000)) = STATUS_CAPACITY"
    by (simp add: val)
  ultimately show ?thesis by simp
qed

section \<open>One cycle of a System\<close>

lemma convert_failure_unchanged:
  "fst (system_convert p s) \<noteq> STATUS_OK \<Longrightarrow> snd (system_convert p s) = s"
  by (auto simp: system_convert_def Let_def split: option.splits if_splits)

text \<open>A failed convert is reported with one event, followed by one pause.\<close>

lemma convert_failure_event:
  "fst (system_convert p s) \<noteq> STATUS_OK \<Longrightarrow> amount_stored (systems s p) = 0 \<Longrightarrow>
   convert_block d p s =
     usleep (SYSTEM_WAIT_TIME d * 1000)
       (push_event
          (event_init p (ra_resource (consumed (systems s p))) (fst (system_convert p s))
             (PRIORITY_HIGH d) (ra_amount (consumed (systems s p))))
          s)"
  using convert_failure_unchanged [of p s]
  by (simp add: convert_block_def split_beta)

lemma store_block_idle: "amount_stored (systems s p) = 0 \<Longrightarrow> store_block d p s = s"
  by (simp add: store_block_def)

text \<open>
  Claim C10. A cycle that starts with an empty buffer and whose convert fails with EMPTY or
  INSUFFICIENT changes no Resource and no System: nothing is consumed, the buffer stays
  empty and no store is attempted. The cycle ends after the convert block, which has pushed
  the event that reports the failure.
\<close>

theorem failed_convert_cycle:
  assumes "amount_stored (systems s p) = 0"
    and "fst (system_convert p s) = STATUS_EMPTY \<or> fst (system_convert p s) = STATUS_INSUFFICIENT"
  shows "resources (system_run d p s) = resources s \<and>
         systems (system_run d p s) = systems s \<and>
         system_run d p s = convert_block d p s \<and>
         event_queue (system_run d p s) =
           event_queue_push (event_queue s)
             (event_init p (ra_resource (consumed (systems s p))) (fst (system_convert p s))
                (PRIORITY_HIGH d) (ra_amount (consumed (systems s p))))"
proof -
  from assms(2) have f: "fst (system_convert p s) \<noteq> STATUS_OK" by auto
  note cb = convert_failure_event [OF f assms(1), of d]
  have "store_block d p (convert_block d p s) = convert_block d p s"
    using assms(1) by (simp add: cb store_block_def state_simps)
  then show ?thesis
    by (simp add: system_run_def cb state_simps)
qed

text \<open>Generator needs 5 Fuel and finds 3: Fuel stays at 3 and the buffer at 0.\<close>

theorem failed_convert_cycle_witness:
  "amount_stored (systems (set_amount 0 3 example_state) 3) = 0 \<and>
   fst (system_convert 3 (set_amount 0 3 example_state)) = STATUS_INSUFFICIENT \<and>
   resources (system_run example_defs 3 (set_amount 0 3 example_state)) =
     resources (set_amount 0 3 example_state) \<and>
   systems (system_run example_defs 3 (set_amount 0 3 example_state)) =
     systems (set_amount 0 3 example_state) \<and>
   amount (resources (system_run example_defs 3 (set_amount 0 3 example_state)) 0) = 3 \<and>
   amount_stored (systems (system_run example_defs 3 (set_amount 0 3 example_state)) 3) = 0"
proof -
  have b: "amount_stored (systems (set_amount 0 3 example_state) 3) = 0"
    by (simp add: state_simps example_simps)
  have f: "fst (system_convert 3 (set_amount 0 3 example_state)) = STATUS_INSUFFICIENT"
    by (simp add: system_convert_def state_simps example_simps)
  have a: "amount (resources (set_amount 0 3 example_state) 0) = 3"
    by (simp add: state_simps)
  from f have g: "fst (system_convert 3 (set_amount 0 3 example_state)) = STATUS_EMPTY \<or>
      fst (system_convert 3 (set_amount 0 3 example_state)) = STATUS_INSUFFICIENT"
    by simp
  from failed_convert_cycle [OF b g, of example_defs]
  have r: "resources (system_run example_defs 3 (set_amount 0 3 example_state)) =
           resources (set_amount 0 3 example_state)"
    and y: "systems (system_run example_defs 3 (set_amount 0 3 example_state)) =
            systems (set_amount 0 3 example_state)"
    by blast+
  show ?thesis
    by (simp add: r y a b f)
qed

lemma convert_block_queue:
  "event_queue (convert_block d p s) = event_queue s \<or>
   (\<exists>e. event_queue (convert_block d p s) = event_queue_push (event_queue s) e) \<and>
     amount_stored (systems (convert_block d p s) p) = 0"
proof (cases "amount_stored (systems s p) = 0 \<and> fst (system_convert p s) \<noteq> STATUS_OK")
  case True
  then show ?thesis
    by (simp add: convert_failure_event state_simps) blast
next
  case False
  then have "event_queue (convert_block d p s) = event_queue s"
    by (auto simp: convert_block_def system_convert_def Let_def state_simps split_beta
             split: option.splits if_splits)
  then show ?thesis by simp
qed

lemma store_queue: "event_queue (snd (system_store_resources p s)) = event_queue s"
  by (simp add: system_store_resources_def Let_def state_simps split: option.splits)

lemma store_block_queue:
  "event_queue (store_block d p s) = event_queue s \<or>
   (\<exists>e. event_queue (store_block d p s) = event_queue_push (event_queue s) e)"
  by (auto simp: store_block_def split_beta state_simps store_queue)

text \<open>
  Claim C8. In every state, one call of \<^verbatim>\<open>system_run\<close> pushes at most one event: the queue
  afterwards is the queue before, or the queue before with a single event pushed, so the
  chain has grown by at most one node.
\<close>

theorem one_event_per_cycle:
  "(event_queue (system_run d p s) = event_queue s \<or>
    (\<exists>e. event_queue (system_run d p s) = event_queue_push (event_queue s) e)) \<and>
   length (head (event_queue (system_run d p s))) \<le> Suc (length (head (event_queue s)))"
proof -
  have one: "event_queue (system_run d p s) = event_queue s \<or>
    (\<exists>e. event_queue (system_run d p s) = event_queue_push (event_queue s) e)"
    using convert_block_queue [of d p s]
  proof
    assume "event_queue (convert_block d p s) = event_queue s"
    with store_block_queue [of d p "convert_block d p s"] show ?thesis
      by (simp add: system_run_def)
  next
    assume "(\<exists>e. event_queue (convert_block d p s) = event_queue_push (event_queue s) e) \<and>
            amount_stored (systems (convert_block d p s) p) = 0"
    then show ?thesis by (simp add: system_run_def store_block_idle)
  qed
  then have "length (head (event_queue (system_run d p s))) \<le> Suc (length (head (event_queue s)))"
    by (auto simp: head_event_queue_push length_traverse)
  with one show ?thesis by simp
qed

text \<open>Crew finds no Oxygen: its cycle pushes exactly one event.\<close>

theorem one_event_per_cycle_witness:
  "length (head (event_queue (system_run example_defs 2 (set_amount 1 0 example_state)))) = 1 \<and>
   length (head (event_queue (set_amount 1 0 example_state))) = 0 \<and>
   length (head (event_queue (system_run example_defs 2 (set_amount 1 0 example_state))))
     \<le> Suc (length (head (event_queue (set_amount 1 0 example_state))))"
proof -
  have "length (head (event_queue (system_run example_defs 2 (set_amount 1 0 example_state)))) = 1"
    by (simp add: system_run_def convert_block_def store_block_def system_convert_def
        state_simps example_simps event_queue_push_def)
  moreover have "length (head (event_queue (set_amount 1 0 example_state))) = 0"
    by (simp add: state_simps example_simps)
  ultimately show ?thesis
    using one_event_per_cycle [of example_defs 2 "set_amount 1 0 example_state"] by simp
qed

section \<open>The event of a store that hits the capacity\<close>

lemma convert_rules:
  "consumed (systems (snd (system_convert p s)) q) = consumed (systems s q)"
  "produced (systems (snd (system_convert p s)) q) = produced (systems s q)"
  by (simp_all add: system_convert_def Let_def state_simps split: option.splits)

lemma store_rules:
  "consumed (systems (snd (system_store_resources p s)) q) = consumed (systems s q)"
  "produced (systems (snd (system_store_resources p s)) q) = produced (systems s q)"
  by (simp_all add: system_store_resources_def Let_def state_simps split: option.splits)

lemma convert_block_rules:
  "consumed (systems (convert_block d p s) q) = consumed (systems s q)"
  "produced (systems (convert_block d p s) q) = produced (systems s q)"
  by (simp_all add: convert_block_def split_beta state_simps convert_rules)

lemma store_block_rules:
  "consumed (systems (store_block d p s) q) = consumed (systems s q)"
  "produced (systems (store_block d p s) q) = produced (systems s q)"
  by (simp_all add: store_block_def split_beta state_simps store_rules)

text \<open>
  When the buffer holds something after the convert block, that block has pushed nothing;
  and if the buffer was empty before, it now holds exactly the produced rule amount.
\<close>

lemma convert_block_buffered:
  assumes "0 < amount_stored (systems (convert_block d p s) p)"
  shows "event_queue (convert_block d p s) = event_queue s"
    and "amount_stored (systems s p) = 0 \<Longrightarrow>
         amount_stored (systems (convert_block d p s) p) = ra_amount (produced (systems s p))"
proof -
  have ok: "amount_stored (systems s p) = 0 \<Longrightarrow> fst (system_convert p s) = STATUS_OK"
  proof (rule ccontr)
    assume z: "amount_stored (systems s p) = 0" and f: "fst (system_convert p s) \<noteq> STATUS_OK"
    from convert_failure_event [OF f z, of d] z assms show False
      by (simp add: state_simps)
  qed
  show "event_queue (convert_block d p s) = event_queue s"
    using ok
    by (cases "amount_stored (systems s p) = 0")
       (auto simp: convert_block_def system_convert_def Let_def state_simps split_beta
             split: option.splits if_splits)
  show "amount_stored (systems (convert_block d p s) p) = ra_amount (produced (systems s p))"
    if z: "amount_stored (systems s p) = 0"
    using ok [OF z] z assms
    by (auto simp: convert_block_def system_convert_def Let_def state_simps split_beta
             split: option.splits if_splits)
qed

text \<open>
  Claim C6, as the code has it. In a cycle whose store fails with CAPACITY, the event pushed
  has status CAPACITY, priority LOW and, as magnitude, the amount of the System's produced
  rule. When the cycle started with an empty buffer, that is the amount the buffer held
  before the store.
\<close>

theorem capacity_event:
  assumes "0 < amount_stored (systems (convert_block d p s) p)"
    and "fst (system_store_resources p (convert_block d p s)) = STATUS_CAPACITY"
  shows "event_queue (system_run d p s) =
           event_queue_push (event_queue s)
             (event_init p (ra_resource (produced (systems s p))) STATUS_CAPACITY (PRIORITY_LOW d)
                (ra_amount (produced (systems s p)))) \<and>
         (amount_stored (systems s p) = 0 \<longrightarrow>
            ra_amount (produced (systems s p)) = amount_stored (systems (convert_block d p s) p))"
  using assms convert_block_buffered [OF assms(1)]
  by (simp add: system_run_def store_block_def split_beta state_simps store_rules
      convert_block_rules store_queue)

text \<open>
  Propulsion starts with an empty buffer and Distance at 4990 of 5000: it produces 25, stores
  10 and reports CAPACITY with magnitude 25.
\<close>

theorem capacity_event_witness:
  "amount_stored (systems (set_amount 3 4990 example_state) 0) = 0 \<and>
   amount_stored (systems (convert_block example_defs 0 (set_amount 3 4990 example_state)) 0) = 25 \<and>
   fst (system_store_resources 0 (convert_block example_defs 0 (set_amount 3 4990 example_state)))
     = STATUS_CAPACITY \<and>
   event_queue (system_run example_defs 0 (set_amount 3 4990 example_state)) =
     event_queue_push (event_queue (set_amount 3 4990 example_state))
       (event_init 0 (Some 3) STATUS_CAPACITY (PRIORITY_LOW example_defs) 25)"
proof -
  have b: "amount_stored (systems (set_amount 3 4990 example_state) 0) = 0"
    by (simp add: state_simps example_simps)
  have c: "amount_stored (systems (convert_block example_defs 0 (set_amount 3 4990 example_state)) 0)
           = 25"
    by (simp add: run_defs state_simps example_simps)
  then have pos:
    "0 < amount_stored (systems (convert_block example_defs 0 (set_amount 3 4990 example_state)) 0)"
    by simp
  have f: "fst (system_store_resources 0
             (convert_block example_defs 0 (set_amount 3 4990 example_state))) = STATUS_CAPACITY"
    by (simp add: run_defs state_simps example_simps)
  have r: "ra_resource (produced (systems (set_amount 3 4990 example_state) 0)) = Some 3"
    "ra_amount (produced (systems (set_amount 3 4990 example_state) 0)) = 25"
    by (simp_all add: state_simps example_simps)
  from capacity_event [OF pos f] show ?thesis
    by (simp add: b c f r)
qed

text \<open>
  Against claim C6 as stated: Propulsion's next cycle starts with 15 units in the buffer and
  Distance full. The store fails with CAPACITY, and the event pushed carries 25, the produced
  rule amount, not the 15 the buffer held before the store.
\<close>

theorem capacity_event_magnitude_counterexample:
  "amount_stored (systems retry_state 0) = 15 \<and>
   fst (system_store_resources 0 retry_state) = STATUS_CAPACITY \<and>
   event_queue (system_run example_defs 0 retry_state) =
     event_queue_push (event_queue retry_state)
       (event_init 0 (Some 3) STATUS_CAPACITY (PRIORITY_LOW example_defs) 25) \<and>
   map ev_amount (head (event_queue (system_run example_defs 0 retry_state))) = [25, 25] \<and>
   ev_amount (event_init 0 (Some 3) STATUS_CAPACITY (PRIORITY_LOW example_defs) 25) \<noteq>
     amount_stored (systems retry_state 0)"
  by (simp add: retry_state_def run_defs state_simps example_simps event_queue_push_def)

section \<open>The run mode in a cycle\<close>

lemma set_status_simps:
  "resources (set_status p m s) = resources s"
  "systems (set_status p m s) = (systems s)(p := (systems s p)\<lparr>sys_status := m\<rparr>)"
  "event_queue (set_status p m s) = event_queue s"
  "slept (set_status p m s) = slept s"
  by (simp_all add: set_status_def)

lemma set_status_fields:
  "amount_stored (systems (set_status p m s) q) = amount_stored (systems s q)"
  "consumed (systems (set_status p m s) q) = consumed (systems s q)"
  "produced (systems (set_status p m s) q) = produced (systems s q)"
  by (simp_all add: set_status_def)

lemma System_update_twist:
  "(r::System)\<lparr>sys_status := m, amount_stored := v\<rparr> = r\<lparr>amount_stored := v, sys_status := m\<rparr>"
  by (cases r) simp

lemma set_status_commute:
  "set_amount r v (set_status p m s) = set_status p m (set_amount r v s)"
  "set_amount_stored q v (set_status p m s) = set_status p m (set_amount_stored q v s)"
  "usleep t (set_status p m s) = set_status p m (usleep t s)"
  "push_event e (set_status p m s) = set_status p m (push_event e s)"
     apply (simp_all add: set_status_def set_amount_def set_amount_stored_def usleep_def
      push_event_def)
  apply (cases "p = q"; simp add: fun_upd_twist System_update_twist)
  done

lemma set_status_twice: "set_status p m (set_status p m' s) = set_status p m s"
  by (simp add: set_status_def)

lemma set_status_same: "set_status p (sys_status (systems s p)) s = s"
  by (simp add: set_status_def)

text \<open>
  The processing time is scaled for SLOW and FAST only: DISABLED falls into the default
  branch, as STANDARD does.
\<close>

lemma process_time_set_status:
  "m = DISABLED \<or> m = STANDARD \<Longrightarrow> m' = DISABLED \<or> m' = STANDARD \<Longrightarrow>
   sys_status (systems s p) = m \<Longrightarrow>
   system_simulate_process_time p (set_status p m' s) =
     set_status p m' (system_simulate_process_time p s)"
  by (auto simp: system_simulate_process_time_def Let_def usleep_def set_status_def)

lemma convert_set_status:
  assumes "sys_status (systems s p) = DISABLED" and "m = STANDARD \<or> m = DISABLED"
  shows "system_convert p (set_status p m s) =
           (fst (system_convert p s), set_status p m (snd (system_convert p s)))"
proof -
  have pt: "system_simulate_process_time p (set_status p m s') =
            set_status p m (system_simulate_process_time p s')"
    if "sys_status (systems s' p) = DISABLED" for s'
    using that assms(2) by (intro process_time_set_status) auto
  have st: "sys_status (systems (set_amount r v s) p) = DISABLED" for r v
    using assms(1) by (simp add: state_simps)
  show ?thesis
    using assms(1)
    by (simp add: system_convert_def Let_def set_status_fields set_status_simps(1,3)
        set_status_commute pt st state_simps split: option.splits)
qed

lemma store_set_status:
  "system_store_resources p (set_status q m s) =
     (fst (system_store_resources p s), set_status q m (snd (system_store_resources p s)))"
  by (simp add: system_store_resources_def Let_def set_status_fields set_status_simps(1,3)
      set_status_commute state_simps split: option.splits)

lemma convert_status:
  "sys_status (systems (snd (system_convert p s)) q) = sys_status (systems s q)"
  by (simp add: system_convert_def Let_def state_simps split: option.splits)

lemma store_status:
  "sys_status (systems (snd (system_store_resources p s)) q) = sys_status (systems s q)"
  by (simp add: system_store_resources_def Let_def state_simps split: option.splits)

lemma convert_block_status:
  "sys_status (systems (convert_block d p s) q) = sys_status (systems s q)"
  by (simp add: convert_block_def split_beta state_simps convert_status)

lemma store_block_status:
  "sys_status (systems (store_block d p s) q) = sys_status (systems s q)"
  by (simp add: store_block_def split_beta state_simps store_status)

lemma convert_block_set_status:
  assumes "sys_status (systems s p) = DISABLED" and "m = STANDARD \<or> m = DISABLED"
  shows "convert_block d p (set_status p m s) = set_status p m (convert_block d p s)"
  by (simp add: convert_block_def convert_set_status [OF assms] set_status_fields
      set_status_commute split_beta)

lemma store_block_set_status:
  "store_block d p (set_status q m s) = set_status q m (store_block d p s)"
  by (simp add: store_block_def store_set_status set_status_fields set_status_commute
      split_beta)

text \<open>
  Claim C7, as the code has it. \<^verbatim>\<open>system_run\<close> does not test for DISABLED: the cycle of a
  DISABLED System is the cycle the same System would make in mode STANDARD, with the same
  convert and store, the same changes to the Resources and to the buffer, the same event and
  the same pauses. Only the mode itself differs.
\<close>

theorem disabled_cycle_runs_as_standard:
  assumes "sys_status (systems s p) = DISABLED"
  shows "system_run d p s = set_status p DISABLED (system_run d p (set_status p STANDARD s))"
proof -
  have "system_run d p (set_status p STANDARD s) = set_status p STANDARD (system_run d p s)"
    by (simp add: system_run_def convert_block_set_status [OF assms] store_block_set_status)
  moreover have "sys_status (systems (system_run d p s) p) = DISABLED"
    using assms by (simp add: system_run_def store_block_status convert_block_status)
  ultimately show ?thesis
    using set_status_same [of p "system_run d p s"] by (simp add: set_status_twice)
qed

text \<open>The DISABLED Generator against the Generator in mode STANDARD.\<close>

theorem disabled_cycle_runs_as_standard_witness:
  "sys_status (systems disabled_state 3) = DISABLED \<and>
   set_status 3 STANDARD disabled_state = example_state \<and>
   system_run example_defs 3 disabled_state =
     set_status 3 DISABLED (system_run example_defs 3 example_state)"
proof -
  have d: "sys_status (systems disabled_state 3) = DISABLED"
    by (simp add: disabled_state_def set_status_simps)
  have "sys_status (systems example_state 3) = STANDARD"
    by (simp add: example_simps)
  with set_status_same [of 3 example_state]
  have e: "set_status 3 STANDARD disabled_state = example_state"
    by (simp add: disabled_state_def set_status_twice)
  from disabled_cycle_runs_as_standard [OF d, of example_defs] show ?thesis
    by (simp add: d e)
qed

text \<open>
  Against claim C7 as stated: the DISABLED Generator converts and stores. Its cycle takes
  5 Fuel, leaves Fuel at 995, and brings Energy from 30 to 40.
\<close>

theorem disabled_cycle_counterexample:
  "sys_status (systems disabled_state 3) = DISABLED \<and>
   amount (resources disabled_state 0) = 1000 \<and>
   amount (resources (system_run example_defs 3 disabled_state) 0) = 995 \<and>
   amount (resources disabled_state 2) = 30 \<and>
   amount (resources (system_run example_defs 3 disabled_state) 2) = 40"
  by (simp add: disabled_state_def set_status_def run_defs state_simps example_simps)

section \<open>The capacity invariant\<close>

lemma rules_nonneg_convert: "rules_nonneg (snd (system_convert p s)) = rules_nonneg s"
  by (simp add: rules_nonneg_def convert_rules)

lemma rules_nonneg_store: "rules_nonneg (snd (system_store_resources p s)) = rules_nonneg s"
  by (simp add: rules_nonneg_def store_rules)

lemma rules_nonneg_convert_block: "rules_nonneg (convert_block d p s) = rules_nonneg s"
  by (simp add: rules_nonneg_def convert_block_rules)

lemma rules_nonneg_store_block: "rules_nonneg (store_block d p s) = rules_nonneg s"
  by (simp add: rules_nonneg_def store_block_rules)

lemma capacity_inv_set_amount:
  "capacity_inv s \<Longrightarrow> 0 \<le> v \<Longrightarrow> v \<le> max_capacity (resources s r) \<Longrightarrow>
   capacity_inv (set_amount r v s)"
  by (simp add: capacity_inv_def state_simps)

lemma capacity_inv_D:
  "capacity_inv s \<Longrightarrow> 0 \<le> amount (resources s r)"
  "capacity_inv s \<Longrightarrow> amount (resources s r) \<le> max_capacity (resources s r)"
  by (simp_all add: capacity_inv_def)

text \<open>A convert takes a non-negative amount that the Resource holds.\<close>

lemma capacity_inv_convert:
  assumes "capacity_inv s" and "rules_nonneg s"
  shows "capacity_inv (snd (system_convert p s))"
proof (cases "ra_resource (consumed (systems s p))")
  case None
  then have "resources (snd (system_convert p s)) = resources s"
    by (simp add: system_convert_def Let_def state_simps)
  with assms(1) show ?thesis by (simp add: capacity_inv_def)
next
  case (Some r)
  show ?thesis
  proof (cases "ra_amount (consumed (systems s p)) \<le> amount (resources s r)")
    case True
    let ?s1 = "set_amount r (amount (resources s r) - ra_amount (consumed (systems s p))) s"
    from assms(2) have "0 \<le> ra_amount (consumed (systems s p))"
      by (simp add: rules_nonneg_def)
    with True capacity_inv_D(2) [OF assms(1), of r] have "capacity_inv ?s1"
      by (intro capacity_inv_set_amount [OF assms(1)]) auto
    moreover have "resources (snd (system_convert p s)) = resources ?s1"
      using Some True by (simp add: system_convert_def Let_def state_simps)
    ultimately show ?thesis by (simp add: capacity_inv_def)
  next
    case False
    with Some have "snd (system_convert p s) = s"
      by (simp add: system_convert_def Let_def)
    with assms(1) show ?thesis by simp
  qed
qed

text \<open>A store of a non-negative buffer adds no more than the headroom.\<close>

lemma capacity_inv_store:
  assumes "capacity_inv s" and "0 \<le> amount_stored (systems s p)"
  shows "capacity_inv (snd (system_store_resources p s))"
proof (cases "ra_resource (produced (systems s p))")
  case None
  then have "resources (snd (system_store_resources p s)) = resources s"
    by (simp add: system_store_resources_def state_simps)
  with assms(1) show ?thesis by (simp add: capacity_inv_def)
next
  case (Some r)
  note b = capacity_inv_D [OF assms(1), of r] assms(2)
  let ?a = "amount (resources s r)" and ?m = "max_capacity (resources s r)"
  let ?b = "amount_stored (systems s p)"
  consider "?b = 0" | "?b \<noteq> 0" "?b \<le> ?m - ?a" | "?b \<noteq> 0" "\<not> ?b \<le> ?m - ?a" "0 < ?m - ?a"
    | "?b \<noteq> 0" "\<not> ?b \<le> ?m - ?a" "\<not> 0 < ?m - ?a" by blast
  then show ?thesis
  proof cases
    case 1
    with Some have "resources (snd (system_store_resources p s)) = resources s"
      by (simp add: system_store_resources_def state_simps)
    with assms(1) show ?thesis by (simp add: capacity_inv_def)
  next
    case 2
    have "capacity_inv (set_amount r (?a + ?b) s)"
      using b 2 by (intro capacity_inv_set_amount [OF assms(1)]) auto
    moreover have "resources (snd (system_store_resources p s)) =
        resources (set_amount r (?a + ?b) s)"
      using Some 2 by (simp add: system_store_resources_def Let_def state_simps)
    ultimately show ?thesis by (simp add: capacity_inv_def)
  next
    case 3
    have "capacity_inv (set_amount r (?a + (?m - ?a)) s)"
      using b 3 by (intro capacity_inv_set_amount [OF assms(1)]) auto
    moreover have "resources (snd (system_store_resources p s)) =
        resources (set_amount r (?a + (?m - ?a)) s)"
      using Some 3 by (simp add: system_store_resources_def Let_def state_simps)
    ultimately show ?thesis by (simp add: capacity_inv_def)
  next
    case 4
    with Some have "snd (system_store_resources p s) = s"
      by (simp add: system_store_resources_def Let_def)
    with assms(1) show ?thesis by simp
  qed
qed

lemma capacity_inv_usleep: "capacity_inv (usleep t s) = capacity_inv s"
  by (simp add: capacity_inv_def state_simps)

lemma capacity_inv_push_event: "capacity_inv (push_event e s) = capacity_inv s"
  by (simp add: capacity_inv_def state_simps)

lemma capacity_inv_convert_block:
  assumes "capacity_inv s" and "rules_nonneg s"
  shows "capacity_inv (convert_block d p s)"
  using capacity_inv_convert [OF assms, of p] assms(1)
  by (simp add: convert_block_def split_beta capacity_inv_usleep capacity_inv_push_event)

lemma capacity_inv_store_block:
  assumes "capacity_inv s"
  shows "capacity_inv (store_block d p s)"
proof (cases "0 < amount_stored (systems s p)")
  case True
  then have "0 \<le> amount_stored (systems s p)" by simp
  from capacity_inv_store [OF assms this] True show ?thesis
    by (simp add: store_block_def split_beta capacity_inv_usleep capacity_inv_push_event)
next
  case False
  with assms show ?thesis by (simp add: store_block_def)
qed

lemma capacity_inv_apply_op:
  "capacity_inv s \<and> rules_nonneg s \<Longrightarrow>
   capacity_inv (apply_op d x s) \<and> rules_nonneg (apply_op d x s)"
  by (cases x)
     (simp_all add: system_run_def capacity_inv_convert_block capacity_inv_store_block
        rules_nonneg_convert_block rules_nonneg_store_block)

lemma capacity_inv_apply_ops:
  "capacity_inv s \<and> rules_nonneg s \<Longrightarrow>
   capacity_inv (apply_ops d xs s) \<and> rules_nonneg (apply_ops d xs s)"
  unfolding apply_ops_def
proof (induction xs arbitrary: s)
  case Nil
  then show ?case by simp
next
  case (Cons x xs)
  from Cons.IH [OF capacity_inv_apply_op [OF Cons.prems]] show ?case by simp
qed

subsection \<open>The size of the buffers\<close>

lemma buffers_bounded_convert_block:
  assumes "buffers_bounded s" and "rules_nonneg s"
  shows "buffers_bounded (convert_block d p s)"
proof -
  from assms have b: "0 \<le> amount_stored (systems s q)"
    "amount_stored (systems s q) \<le> ra_amount (produced (systems s q))"
    "0 \<le> ra_amount (produced (systems s q))" for q
    by (simp_all add: buffers_bounded_def rules_nonneg_def)
  show ?thesis
    unfolding buffers_bounded_def
  proof
    fix q
    show "0 \<le> amount_stored (systems (convert_block d p s) q) \<and>
          amount_stored (systems (convert_block d p s) q)
            \<le> ra_amount (produced (systems (convert_block d p s) q))"
      using b [of q] b(3) [of p]
      by (simp add: convert_block_def system_convert_def Let_def split_beta state_simps
          split: option.splits)
  qed
qed

lemma buffers_bounded_store_block:
  assumes "buffers_bounded s"
  shows "buffers_bounded (store_block d p s)"
proof -
  from assms have b: "0 \<le> amount_stored (systems s q)"
    "amount_stored (systems s q) \<le> ra_amount (produced (systems s q))" for q
    by (simp_all add: buffers_bounded_def)
  show ?thesis
    unfolding buffers_bounded_def
  proof
    fix q
    show "0 \<le> amount_stored (systems (store_block d p s) q) \<and>
          amount_stored (systems (store_block d p s) q)
            \<le> ra_amount (produced (systems (store_block d p s) q))"
      using b [of q] b [of p]
      by (simp add: store_block_def system_store_resources_def Let_def split_beta state_simps
          split: option.splits)
  qed
qed

lemma buffers_bounded_apply_op:
  "buffers_bounded s \<and> rules_nonneg s \<Longrightarrow>
   buffers_bounded (apply_op d x s) \<and> rules_nonneg (apply_op d x s)"
  by (cases x)
     (simp_all add: system_run_def buffers_bounded_convert_block buffers_bounded_store_block
        rules_nonneg_convert_block rules_nonneg_store_block)

text \<open>
  Through \<^verbatim>\<open>system_run\<close> a buffer never holds more than the amount of its production rule:
  every value the converts and stores compute lies between 0 and a capacity or a rule amount
  of the configuration.
\<close>

lemma buffers_stay_bounded:
  "buffers_bounded s \<and> rules_nonneg s \<Longrightarrow>
   buffers_bounded (apply_ops d xs s) \<and> rules_nonneg (apply_ops d xs s)"
  unfolding apply_ops_def
proof (induction xs arbitrary: s)
  case Nil
  then show ?case by simp
next
  case (Cons x xs)
  from Cons.IH [OF buffers_bounded_apply_op [OF Cons.prems]] show ?case by simp
qed

lemma convert_max_capacity:
  "max_capacity (resources (snd (system_convert p s)) r) = max_capacity (resources s r)"
  by (simp add: system_convert_def Let_def state_simps split: option.splits)

lemma store_max_capacity:
  "max_capacity (resources (snd (system_store_resources p s)) r) = max_capacity (resources s r)"
  by (simp add: system_store_resources_def Let_def state_simps split: option.splits)

lemma apply_op_max_capacity:
  "max_capacity (resources (apply_op d x s) r) = max_capacity (resources s r)"
  by (cases x)
     (simp_all add: system_run_def convert_block_def store_block_def split_beta state_simps
        convert_max_capacity store_max_capacity)

lemma apply_ops_max_capacity:
  "max_capacity (resources (apply_ops d xs s) r) = max_capacity (resources s r)"
  unfolding apply_ops_def
  by (induction xs arbitrary: s) (simp_all add: apply_op_max_capacity)

subsection \<open>The invariant over sequences of operations\<close>

text \<open>
  Claim C1. Start from a state in which every Resource holds between 0 and its capacity and
  the amounts of all consumption and production rules are not negative. After any sequence
  of converts and stores of any Systems, made as \<^verbatim>\<open>system_run\<close> makes them, and of whole
  cycles, every Resource still holds between 0 and its capacity.
\<close>

theorem capacity_preserved:
  assumes "\<forall>r. 0 \<le> amount (resources s r) \<and> amount (resources s r) \<le> max_capacity (resources s r)"
    and "\<forall>p. 0 \<le> ra_amount (consumed (systems s p)) \<and> 0 \<le> ra_amount (produced (systems s p))"
  shows "0 \<le> amount (resources (apply_ops d xs s) r) \<and>
         amount (resources (apply_ops d xs s) r) \<le> max_capacity (resources (apply_ops d xs s) r)"
proof -
  from assms have "capacity_inv s \<and> rules_nonneg s"
    by (simp add: capacity_inv_def rules_nonneg_def)
  then have "capacity_inv (apply_ops d xs s)"
    using capacity_inv_apply_ops by blast
  then show ?thesis
    using capacity_inv_D [of "apply_ops d xs s" r] by simp
qed

text \<open>
  On the sample configuration: two cycles of Propulsion around a convert and a store of the
  Generator and a cycle of Crew keep Distance between 0 and 5000.
\<close>

theorem capacity_preserved_witness:
  "(\<forall>r. 0 \<le> amount (resources example_state r) \<and>
        amount (resources example_state r) \<le> max_capacity (resources example_state r)) \<and>
   (\<forall>p. 0 \<le> ra_amount (consumed (systems example_state p)) \<and>
        0 \<le> ra_amount (produced (systems example_state p))) \<and>
   0 \<le> amount (resources
          (apply_ops example_defs [Cycle 0, Convert 3, Cycle 2, Store 3, Cycle 0] example_state) 3) \<and>
   amount (resources
          (apply_ops example_defs [Cycle 0, Convert 3, Cycle 2, Store 3, Cycle 0] example_state) 3)
     \<le> 5000"
proof -
  have c: "\<forall>r. 0 \<le> amount (resources example_state r) \<and>
        amount (resources example_state r) \<le> max_capacity (resources example_state r)"
    by (simp add: example_simps)
  have n: "\<forall>p. 0 \<le> ra_amount (consumed (systems example_state p)) \<and>
        0 \<le> ra_amount (produced (systems example_state p))"
    by (simp add: example_simps)
  have m: "max_capacity (resources
          (apply_ops example_defs [Cycle 0, Convert 3, Cycle 2, Store 3, Cycle 0] example_state) 3)
          = 5000"
    by (simp add: apply_ops_max_capacity example_simps)
  from capacity_preserved
    [OF c n, of example_defs "[Cycle 0, Convert 3, Cycle 2, Store 3, Cycle 0]" 3] c n m
  show ?thesis
    by simp
qed

subsection \<open>The range of the values\<close>

lemma apply_op_produced:
  "produced (systems (apply_op d x s) p) = produced (systems s p)"
  by (cases x) (simp_all add: system_run_def convert_block_rules store_block_rules)

lemma apply_ops_produced:
  "produced (systems (apply_ops d xs s) p) = produced (systems s p)"
  unfolding apply_ops_def
  by (induction xs arbitrary: s) (simp_all add: apply_op_produced)

text \<open>
  So the amounts and the buffers fit a 32-bit \<^verbatim>\<open>int\<close> for as long as the capacities and the
  production rules of the configuration do.
\<close>

lemma amounts_fit_int:
  assumes "capacity_inv s" and "rules_nonneg s" and "buffers_bounded s"
    and "\<forall>r. max_capacity (resources s r) < 2 ^ 31"
    and "\<forall>p. ra_amount (produced (systems s p)) < 2 ^ 31"
  shows "0 \<le> amount (resources (apply_ops d xs s) r) \<and>
         amount (resources (apply_ops d xs s) r) < 2 ^ 31 \<and>
         0 \<le> amount_stored (systems (apply_ops d xs s) p) \<and>
         amount_stored (systems (apply_ops d xs s) p) < 2 ^ 31"
proof -
  from assms(1,2) have "capacity_inv (apply_ops d xs s)"
    using capacity_inv_apply_ops by blast
  then have a: "0 \<le> amount (resources (apply_ops d xs s) r)"
    "amount (resources (apply_ops d xs s) r) \<le> max_capacity (resources (apply_ops d xs s) r)"
    by (simp_all add: capacity_inv_def)
  from assms(2,3) have "buffers_bounded (apply_ops d xs s)"
    using buffers_stay_bounded by blast
  then have b: "0 \<le> amount_stored (systems (apply_ops d xs s) p)"
    "amount_stored (systems (apply_ops d xs s) p)
       \<le> ra_amount (produced (systems (apply_ops d xs s) p))"
    by (simp_all add: buffers_bounded_def)
  from assms(4) have "max_capacity (resources s r) < 2 ^ 31" by simp
  moreover from assms(5) have "ra_amount (produced (systems s p)) < 2 ^ 31" by simp
  ultimately show ?thesis
    using a b by (simp add: apply_ops_max_capacity apply_ops_produced)
qed

section \<open>The Manager's reaction to an event\<close>

text \<open>
  What the loop over the System array leaves behind: a System of the array takes the new mode
  when the mode is TERMINATE or when it produces the event's resource; every other System
  keeps its mode.
\<close>

lemma update_systems_apply:
  "update_systems st res ps h p =
     (if p \<in> set ps \<and> (st = TERMINATE \<or> ra_resource (produced (h p)) = res)
      then (h p)\<lparr>sys_status := st\<rparr> else h p)"
proof (induction ps arbitrary: h)
  case Nil
  show ?case by simp
next
  case (Cons q qs)
  show ?case by (simp add: Cons.IH)
qed

text \<open>
  The reaction of the loop body to one event on a resource, case by case; in each case
  nothing else in the state changes.
\<close>

lemma process_event_reaction:
  assumes "ev_resource e = Some r"
  shows "((ev_status e = STATUS_EMPTY \<and> name (resources s r) = ''Oxygen'') \<or>
          (ev_status e = STATUS_CAPACITY \<and> name (resources s r) = ''Distance'')
          \<longrightarrow> process_event m s e =
                Inr (m\<lparr>simulation_running := 0\<rparr>,
                     s\<lparr>systems := \<lambda>p.
                         if p \<in> set (system_array m)
                         then (systems s p)\<lparr>sys_status := TERMINATE\<rparr> else systems s p\<rparr>)) \<and>
         (\<not> ((ev_status e = STATUS_EMPTY \<and> name (resources s r) = ''Oxygen'') \<or>
             (ev_status e = STATUS_CAPACITY \<and> name (resources s r) = ''Distance'')) \<and>
          ev_status e \<in> {STATUS_LOW, STATUS_EMPTY, STATUS_INSUFFICIENT}
          \<longrightarrow> process_event m s e =
                Inr (m, s\<lparr>systems := \<lambda>p.
                         if p \<in> set (system_array m) \<and>
                            ra_resource (produced (systems s p)) = Some r
                         then (systems s p)\<lparr>sys_status := FAST\<rparr> else systems s p\<rparr>)) \<and>
         (\<not> ((ev_status e = STATUS_EMPTY \<and> name (resources s r) = ''Oxygen'') \<or>
             (ev_status e = STATUS_CAPACITY \<and> name (resources s r) = ''Distance'')) \<and>
          ev_status e = STATUS_CAPACITY
          \<longrightarrow> process_event m s e =
                Inr (m, s\<lparr>systems := \<lambda>p.
                         if p \<in> set (system_array m) \<and>
                            ra_resource (produced (systems s p)) = Some r
                         then (systems s p)\<lparr>sys_status := SLOW\<rparr> else systems s p\<rparr>)) \<and>
         (ev_status e \<notin> {STATUS_LOW, STATUS_EMPTY, STATUS_INSUFFICIENT, STATUS_CAPACITY}
          \<longrightarrow> process_event m s e = Inr (m, s))"
  using assms
  by (cases "ev_status e") (auto simp: process_event_def Let_def update_systems_apply fun_eq_iff)

subsection \<open>Draining the queue\<close>

lemma manager_run_empty:
  "fst (event_queue_pop (event_queue s)) = None \<Longrightarrow> manager_run m s = Inr (m, s)"
  by (simp add: manager_run.simps [of m s] split_beta)

lemma manager_run_step:
  "fst (event_queue_pop (event_queue s)) = Some e \<Longrightarrow>
   manager_run m s =
     (case process_event m (s\<lparr>event_queue := snd (event_queue_pop (event_queue s))\<rparr>) e of
        Inl err \<Rightarrow> Inl err
      | Inr (m', s') \<Rightarrow> manager_run m' s')"
  by (simp add: manager_run.simps [of m s] split_beta)

text \<open>
  Claim C5. \<^verbatim>\<open>manager_run\<close> returns at once, with nothing changed, when the pop finds the queue
  empty. When the pop returns an event on a resource, \<^verbatim>\<open>manager_run\<close> goes on draining from
  the state that its reaction to this event leaves, with the event removed from the queue:
  if the event is EMPTY on the Resource named Oxygen or CAPACITY on the Resource named
  Distance, every System of the array is set to TERMINATE and \<open>simulation_running\<close> is 0;
  otherwise, if its status is LOW, EMPTY or INSUFFICIENT, exactly the Systems of the array
  that produce the event's resource are set to FAST; otherwise, if its status is CAPACITY,
  exactly those Systems are set to SLOW; any other status changes no mode.
\<close>

theorem manager_run_reaction:
  "(fst (event_queue_pop (event_queue s)) = None \<longrightarrow> manager_run m s = Inr (m, s)) \<and>
   (fst (event_queue_pop (event_queue s)) = Some e \<and> ev_resource e = Some r \<longrightarrow>
      ((ev_status e = STATUS_EMPTY \<and> name (resources s r) = ''Oxygen'') \<or>
       (ev_status e = STATUS_CAPACITY \<and> name (resources s r) = ''Distance'')
       \<longrightarrow> manager_run m s =
             manager_run (m\<lparr>simulation_running := 0\<rparr>)
               (s\<lparr>event_queue := snd (event_queue_pop (event_queue s)),
                  systems := \<lambda>p.
                    if p \<in> set (system_array m)
                    then (systems s p)\<lparr>sys_status := TERMINATE\<rparr> else systems s p\<rparr>)) \<and>
      (\<not> ((ev_status e = STATUS_EMPTY \<and> name (resources s r) = ''Oxygen'') \<or>
          (ev_status e = STATUS_CAPACITY \<and> name (resources s r) = ''Distance'')) \<and>
       ev_status e \<in> {STATUS_LOW, STATUS_EMPTY, STATUS_INSUFFICIENT}
       \<longrightarrow> manager_run m s =
             manager_run m
               (s\<lparr>event_queue := snd (event_queue_pop (event_queue s)),
                  systems := \<lambda>p.
                    if p \<in> set (system_array m) \<and>
                       ra_resource (produced (systems s p)) = Some r
                    then (systems s p)\<lparr>sys_status := FAST\<rparr> else systems s p\<rparr>)) \<and>
      (\<not> ((ev_status e = STATUS_EMPTY \<and> name (resources s r) = ''Oxygen'') \<or>
          (ev_status e = STATUS_CAPACITY \<and> name (resources s r) = ''Distance'')) \<and>
       ev_status e = STATUS_CAPACITY
       \<longrightarrow> manager_run m s =
             manager_run m
               (s\<lparr>event_queue := snd (event_queue_pop (event_queue s)),
                  systems := \<lambda>p.
                    if p \<in> set (system_array m) \<and>
                       ra_resource (produced (systems s p)) = Some r
                    then (systems s p)\<lparr>sys_status := SLOW\<rparr> else systems s p\<rparr>)) \<and>
      (ev_status e \<notin> {STATUS_LOW, STATUS_EMPTY, STATUS_INSUFFICIENT, STATUS_CAPACITY}
       \<longrightarrow> manager_run m s =
             manager_run m (s\<lparr>event_queue := snd (event_queue_pop (event_queue s))\<rparr>)))"
proof (intro conjI impI)
  assume "fst (event_queue_pop (event_queue s)) = None"
  then show "manager_run m s = Inr (m, s)" by (rule manager_run_empty)
next
  let ?t = "s\<lparr>event_queue := snd (event_queue_pop (event_queue s))\<rparr>"
  assume pe: "fst (event_queue_pop (event_queue s)) = Some e \<and> ev_resource e = Some r"
  then have step: "manager_run m s =
      (case process_event m ?t e of Inl err \<Rightarrow> Inl err | Inr (m', s') \<Rightarrow> manager_run m' s')"
    by (simp add: manager_run_step)
  from pe have res: "ev_resource e = Some r" by simp
  have t: "resources ?t = resources s" "systems ?t = systems s"
    by simp_all
  note react = process_event_reaction [OF res, of ?t m, unfolded t]
  {
    assume "(ev_status e = STATUS_EMPTY \<and> name (resources s r) = ''Oxygen'') \<or>
       (ev_status e = STATUS_CAPACITY \<and> name (resources s r) = ''Distance'')"
    with react have "process_event m ?t e =
        Inr (m\<lparr>simulation_running := 0\<rparr>,
             s\<lparr>event_queue := snd (event_queue_pop (event_queue s)),
               systems := \<lambda>p.
                 if p \<in> set (system_array m)
                 then (systems s p)\<lparr>sys_status := TERMINATE\<rparr> else systems s p\<rparr>)"
      by blast
    then show "manager_run m s =
             manager_run (m\<lparr>simulation_running := 0\<rparr>)
               (s\<lparr>event_queue := snd (event_queue_pop (event_queue s)),
                  systems := \<lambda>p.
                    if p \<in> set (system_array m)
                    then (systems s p)\<lparr>sys_status := TERMINATE\<rparr> else systems s p\<rparr>)"
      by (simp add: step)
  }
  {
    assume "\<not> ((ev_status e = STATUS_EMPTY \<and> name (resources s r) = ''Oxygen'') \<or>
          (ev_status e = STATUS_CAPACITY \<and> name (resources s r) = ''Distance'')) \<and>
       ev_status e \<in> {STATUS_LOW, STATUS_EMPTY, STATUS_INSUFFICIENT}"
    with react have "process_event m ?t e =
        Inr (m, s\<lparr>event_queue := snd (event_queue_pop (event_queue s)),
               systems := \<lambda>p.
                 if p \<in> set (system_array m) \<and> ra_resource (produced (systems s p)) = Some r
                 then (systems s p)\<lparr>sys_status := FAST\<rparr> else systems s p\<rparr>)"
      by blast
    then show "manager_run m s =
             manager_run m
               (s\<lparr>event_queue := snd (event_queue_pop (event_queue s)),
                  systems := \<lambda>p.
                    if p \<in> set (system_array m) \<and>
                       ra_resource (produced (systems s p)) = Some r
                    then (systems s p)\<lparr>sys_status := FAST\<rparr> else systems s p\<rparr>)"
      by (simp add: step)
  }
  {
    assume "\<not> ((ev_status e = STATUS_EMPTY \<and> name (resources s r) = ''Oxygen'') \<or>
          (ev_status e = STATUS_CAPACITY \<and> name (resources s r) = ''Distance'')) \<and>
       ev_status e = STATUS_CAPACITY"
    with react have "process_event m ?t e =
        Inr (m, s\<lparr>event_queue := snd (event_queue_pop (event_queue s)),
               systems := \<lambda>p.
                 if p \<in> set (system_array m) \<and> ra_resource (produced (systems s p)) = Some r
                 then (systems s p)\<lparr>sys_status := SLOW\<rparr> else systems s p\<rparr>)"
      by blast
    then show "manager_run m s =
             manager_run m
               (s\<lparr>event_queue := snd (event_queue_pop (event_queue s)),
                  systems := \<lambda>p.
                    if p \<in> set (system_array m) \<and>
                       ra_resource (produced (systems s p)) = Some r
                    then (systems s p)\<lparr>sys_status := SLOW\<rparr> else systems s p\<rparr>)"
      by (simp add: step)
  }
  {
    assume "ev_status e \<notin> {STATUS_LOW, STATUS_EMPTY, STATUS_INSUFFICIENT, STATUS_CAPACITY}"
    with react have "process_event m ?t e = Inr (m, ?t)"
      by blast
    then show "manager_run m s =
             manager_run m (s\<lparr>event_queue := snd (event_queue_pop (event_queue s))\<rparr>)"
      by (simp add: step)
  }
qed

text \<open>
  Four queues with one event each. Crew has reported Oxygen EMPTY: all four Systems end in
  TERMINATE and the simulation is stopped. Life Support has reported Energy INSUFFICIENT: the
  producers of Energy are set to FAST. The Generator has reported Energy at CAPACITY: the
  producers of Energy are set to SLOW. An event with status OK changes no mode. Each time the
  queue is empty afterwards.
\<close>

theorem manager_run_reaction_witness:
  "manager_run example_manager crew_report_state =
     Inr (example_manager\<lparr>simulation_running := 0\<rparr>,
          crew_report_state\<lparr>event_queue := \<lparr>head = [], q_size = 0\<rparr>,
            systems := \<lambda>p.
              if p \<in> set (system_array example_manager)
              then (systems crew_report_state p)\<lparr>sys_status := TERMINATE\<rparr>
              else systems crew_report_state p\<rparr>) \<and>
   manager_run example_manager life_support_report_state =
     Inr (example_manager,
          life_support_report_state\<lparr>event_queue := \<lparr>head = [], q_size = 0\<rparr>,
            systems := \<lambda>p.
              if p \<in> set (system_array example_manager) \<and>
                 ra_resource (produced (systems life_support_report_state p)) = Some 2
              then (systems life_support_report_state p)\<lparr>sys_status := FAST\<rparr>
              else systems life_support_report_state p\<rparr>) \<and>
   manager_run example_manager generator_report_state =
     Inr (example_manager,
          generator_report_state\<lparr>event_queue := \<lparr>head = [], q_size = 0\<rparr>,
            systems := \<lambda>p.
              if p \<in> set (system_array example_manager) \<and>
                 ra_resource (produced (systems generator_report_state p)) = Some 2
              then (systems generator_report_state p)\<lparr>sys_status := SLOW\<rparr>
              else systems generator_report_state p\<rparr>) \<and>
   manager_run example_manager ok_report_state =
     Inr (example_manager, ok_report_state\<lparr>event_queue := \<lparr>head = [], q_size = 0\<rparr>\<rparr>)"
proof -
  have rest: "manager_run m (s\<lparr>event_queue := \<lparr>head = [], q_size = 0\<rparr>, systems := h\<rparr>) =
      Inr (m, s\<lparr>event_queue := \<lparr>head = [], q_size = 0\<rparr>, systems := h\<rparr>)" for m s h
    using manager_run_reaction
      [of "s\<lparr>event_queue := \<lparr>head = [], q_size = 0\<rparr>, systems := h\<rparr>" m]
    by (simp add: event_queue_pop_def)
  have rest': "manager_run m (s\<lparr>event_queue := \<lparr>head = [], q_size = 0\<rparr>\<rparr>) =
      Inr (m, s\<lparr>event_queue := \<lparr>head = [], q_size = 0\<rparr>\<rparr>)" for m s
    using manager_run_reaction [of "s\<lparr>event_queue := \<lparr>head = [], q_size = 0\<rparr>\<rparr>" m]
    by (simp add: event_queue_pop_def)
  have crew:
    "event_queue_pop (event_queue crew_report_state) =
       (Some (event_init 2 (Some 1) STATUS_EMPTY 3 1), \<lparr>head = [], q_size = 0\<rparr>)"
    "name (resources crew_report_state 1) = ''Oxygen''"
    by (simp_all add: crew_report_state_def run_defs state_simps example_simps
        event_queue_push_def event_queue_pop_def del: One_nat_def)
  have life:
    "event_queue_pop (event_queue life_support_report_state) =
       (Some (event_init 1 (Some 2) STATUS_INSUFFICIENT 3 7), \<lparr>head = [], q_size = 0\<rparr>)"
    by (simp add: life_support_report_state_def run_defs state_simps example_simps
        event_queue_push_def event_queue_pop_def del: One_nat_def)
  have gen:
    "event_queue_pop (event_queue generator_report_state) =
       (Some (event_init 3 (Some 2) STATUS_CAPACITY 1 10), \<lparr>head = [], q_size = 0\<rparr>)"
    "name (resources generator_report_state 2) \<noteq> ''Distance''"
    by (simp_all add: generator_report_state_def run_defs state_simps example_simps
        event_queue_push_def event_queue_pop_def del: One_nat_def)
  have ok:
    "event_queue_pop (event_queue ok_report_state) =
       (Some (event_init 0 (Some 0) STATUS_OK 1 0), \<lparr>head = [], q_size = 0\<rparr>)"
    by (simp add: ok_report_state_def state_simps example_simps
        event_queue_push_def event_queue_pop_def)
  have ev: "ev_resource (event_init y x st pr a) = x" "ev_status (event_init y x st pr a) = st"
    for y x st pr a
    by (simp_all add: event_init_def)
  from manager_run_reaction
    [of crew_report_state example_manager "event_init 2 (Some 1) STATUS_EMPTY 3 1" 1]
  have "manager_run example_manager crew_report_state =
     Inr (example_manager\<lparr>simulation_running := 0\<rparr>,
          crew_report_state\<lparr>event_queue := \<lparr>head = [], q_size = 0\<rparr>,
            systems := \<lambda>p.
              if p \<in> set (system_array example_manager)
              then (systems crew_report_state p)\<lparr>sys_status := TERMINATE\<rparr>
              else systems crew_report_state p\<rparr>)"
    by (simp add: crew ev rest del: One_nat_def)
  moreover
  from manager_run_reaction
    [of life_support_report_state example_manager
       "event_init 1 (Some 2) STATUS_INSUFFICIENT 3 7" 2]
  have "manager_run example_manager life_support_report_state =
     Inr (example_manager,
          life_support_report_state\<lparr>event_queue := \<lparr>head = [], q_size = 0\<rparr>,
            systems := \<lambda>p.
              if p \<in> set (system_array example_manager) \<and>
                 ra_resource (produced (systems life_support_report_state p)) = Some 2
              then (systems life_support_report_state p)\<lparr>sys_status := FAST\<rparr>
              else systems life_support_report_state p\<rparr>)"
    by (simp add: life ev rest del: One_nat_def)
  moreover
  from manager_run_reaction
    [of generator_report_state example_manager "event_init 3 (Some 2) STATUS_CAPACITY 1 10" 2]
  have "manager_run example_manager generator_report_state =
     Inr (example_manager,
          generator_report_state\<lparr>event_queue := \<lparr>head = [], q_size = 0\<rparr>,
            systems := \<lambda>p.
              if p \<in> set (system_array example_manager) \<and>
                 ra_resource (produced (systems generator_report_state p)) = Some 2
              then (systems generator_report_state p)\<lparr>sys_status := SLOW\<rparr>
              else systems generator_report_state p\<rparr>)"
    by (simp add: gen ev rest del: One_nat_def)
  moreover
  from manager_run_reaction
    [of ok_report_state example_manager "event_init 0 (Some 0) STATUS_OK 1 0" 0]
  have "manager_run example_manager ok_report_state =
     Inr (example_manager, ok_report_state\<lparr>event_queue := \<lparr>head = [], q_size = 0\<rparr>\<rparr>)"
    by (simp add: ok ev rest' del: One_nat_def)
  ultimately show ?thesis by blast
qed

text \<open>
  No reaction sets \<open>simulation_running\<close> again: once an event has stopped the simulation, it
  is stopped when \<^verbatim>\<open>manager_run\<close> returns.
\<close>

lemma process_event_stopped:
  "process_event m s e = Inr (m', s') \<Longrightarrow> simulation_running m = 0 \<Longrightarrow>
   simulation_running m' = 0"
  by (auto simp: process_event_def Let_def split: option.splits if_splits)

lemma manager_run_stopped:
  "manager_run m s = Inr (m', s') \<Longrightarrow> simulation_running m = 0 \<Longrightarrow>
   simulation_running m' = 0"
proof (induction m s rule: manager_run.induct)
  case (1 m s)
  show ?case
  proof (cases "fst (event_queue_pop (event_queue s))")
    case None
    with "1.prems" show ?thesis by (simp add: manager_run_empty)
  next
    case (Some e)
    let ?q = "snd (event_queue_pop (event_queue s))"
    from Some have pop: "event_queue_pop (event_queue s) = (Some e, ?q)"
      by (simp add: prod_eq_iff)
    show ?thesis
    proof (cases "process_event m (s\<lparr>event_queue := ?q\<rparr>) e")
      case (Inl err)
      with "1.prems"(1) Some show ?thesis by (simp add: manager_run_step)
    next
      case (Inr ms)
      obtain m1 s1 where ms: "ms = (m1, s1)" by (cases ms)
      from Inr ms "1.prems"(1) Some have run: "manager_run m1 s1 = Inr (m', s')"
        by (simp add: manager_run_step)
      from Inr ms "1.prems"(2) have "simulation_running m1 = 0"
        by (auto dest: process_event_stopped)
      with "1.IH" [OF pop [symmetric] refl _ _ run] Inr ms show ?thesis by simp
    qed
  qed
qed

end
